theory Spec2Isabelle
  imports Complex_Main
begin

section \<open>Data model (src/app.py, lines 58-83)\<close>

text \<open>
  The three business tables of the application. Each SQLAlchemy model class is a record;
  the field names carry a one-letter prefix (\<open>p_\<close>, \<open>c_\<close>, \<open>v_\<close>) because several
  classes share the column names \<open>id\<close>, \<open>nome\<close> and \<open>quantidade\<close>.

  \<^item> A Python string is the list of its Unicode code points.
  \<^item> Python integers are \<open>int\<close> (unbounded). The store keeps an integer only if it fits
    64 bits (\<open>store_int\<close> below).
  \<^item> Python floats are the values of a type parameter \<open>'f\<close>; nothing is assumed about
    them. The few operations the program applies to a float are the fields of the
    record \<open>python\<close> below, so that rounding, infinities and NaN are whatever the
    interpreter makes them.
  \<^item> Nullable columns are \<open>option\<close>.
  \<^item> A table is the list of its rows in the order in which the store returns them
    (\<open>Model.query.all()\<close>); \<open>.first()\<close> returns the head of the matching rows.
\<close>

type_synonym pystr = "nat list"

type_synonym datetime = nat

record 'f produto =
  p_id :: int
  p_nome :: pystr
  p_quantidade :: int
  p_preco :: 'f
  p_preco_compra :: "'f option"
  p_validade :: "pystr option"

record cliente =
  c_id :: int
  c_nome :: pystr
  c_telefone :: "pystr option"
  c_email :: "pystr option"
  c_cidade :: "pystr option"

record 'f venda =
  v_id :: int
  v_data :: datetime
  v_quantidade :: int
  v_valor_total :: 'f
  v_produto_id :: int
  v_cliente_id :: "int option"

record 'f db =
  produtos :: "'f produto list"
  clientes :: "cliente list"
  vendas :: "'f venda list"

text \<open>Exceptions that escape a handler, and the notices (flash messages) handlers leave.\<close>

datatype excecao = AttributeError | ValueError | OverflowError | IntegrityError | FalhaBanco

datatype resposta =
    VendaRegistrada
  | EstoqueInsuficiente int
  | Importacao nat nat
  | NenhumArquivo
  | SelecioneArquivo
  | ErroImportacao
  | HistoricoLimpo
  | ErroLimpar
  | ProdutoAdicionado
  | Atualizado
  | Removido
  | ClienteCadastrado
  | ClienteAtualizado
  | ClienteRemovido
  | NotFound404
  | Unhandled excecao

section \<open>The interpreter\<close>

text \<open>
  What the program asks of Python's built-in numbers, as parameters:
  \<^item> \<open>py_int t\<close> is \<open>int(t)\<close> and \<open>py_float t\<close> is \<open>float(t)\<close> on a string, \<open>None\<close>
    where they raise \<open>ValueError\<close>;
  \<^item> \<open>float_mul_int x n\<close> is the float \<open>x * n\<close> for an integer \<open>n\<close>, \<open>None\<close> where the
    conversion of \<open>n\<close> raises \<open>OverflowError\<close>;
  \<^item> \<open>float_gt0 x\<close> is \<open>x > 0\<close>, \<open>float_lt0 x\<close> is \<open>x < 0\<close>, \<open>float_zero\<close> is the
    literal \<open>0.0\<close>, \<open>float_isnan x\<close> says that \<open>x\<close> is a NaN.
\<close>

record 'f python =
  py_int :: "pystr \<Rightarrow> int option"
  py_float :: "pystr \<Rightarrow> 'f option"
  float_mul_int :: "'f \<Rightarrow> int \<Rightarrow> 'f option"
  float_gt0 :: "'f \<Rightarrow> bool"
  float_lt0 :: "'f \<Rightarrow> bool"
  float_zero :: 'f
  float_isnan :: "'f \<Rightarrow> bool"

section \<open>Store primitives\<close>

text \<open>
  The store is the SQLite file the application opens by default. Its driver refuses,
  with \<open>OverflowError\<close>, an integer parameter outside 64 bits, in a query as in a
  write. It stores a NaN as NULL, which a \<open>nullable=False\<close> column refuses with
  \<open>IntegrityError\<close> and a nullable column keeps.
\<close>

definition store_int :: "int \<Rightarrow> bool" where
  "store_int n = (- (2 ^ 63) \<le> n \<and> n < 2 ^ 63)"

definition store_float :: "'f python \<Rightarrow> 'f \<Rightarrow> 'f option" where
  "store_float env x = (if float_isnan env x then None else Some x)"

text \<open>
  \<open>Model.query.get(id)\<close>: the row with that primary key, or \<open>None\<close>.
\<close>

definition query_get :: "('a \<Rightarrow> int) \<Rightarrow> 'a list \<Rightarrow> int \<Rightarrow> excecao + 'a option" where
  "query_get pk rows i =
     (if store_int i then Inr (find (\<lambda>r. pk r = i) rows) else Inl OverflowError)"

text \<open>
  Mutating the attributes of a loaded object and committing rewrites that one row: the
  first row that satisfies the query that loaded it.
\<close>

fun update_first :: "('a \<Rightarrow> bool) \<Rightarrow> ('a \<Rightarrow> 'a) \<Rightarrow> 'a list \<Rightarrow> 'a list" where
  "update_first P f [] = []"
| "update_first P f (x # xs) = (if P x then f x # xs else x # update_first P f xs)"

text \<open>
  The autogenerated integer primary key of an inserted row: one more than the largest
  key of the table, 1 for an empty table.
\<close>

definition next_id :: "int list \<Rightarrow> int" where
  "next_id ids = fold max ids 0 + 1"

text \<open>
  The INSERT of a sale row: the integer parameters are bound first, then the row is
  checked against the \<open>nullable=False\<close> column \<open>valor_total\<close>.
\<close>

definition insert_venda :: "'f python \<Rightarrow> 'f venda \<Rightarrow> excecao + 'f venda" where
  "insert_venda env v =
     (if \<not> (store_int (v_quantidade v) \<and> store_int (v_produto_id v)
              \<and> (case v_cliente_id v of None \<Rightarrow> True | Some c \<Rightarrow> store_int c))
      then Inl OverflowError
      else if float_isnan env (v_valor_total v) then Inl IntegrityError
      else Inr v)"

text \<open>
  The INSERT of a product row, or the UPDATE that rewrites one: the quantity must fit,
  the price must not be NULL, the purchase cost may be.
\<close>

definition write_produto :: "'f python \<Rightarrow> 'f produto \<Rightarrow> excecao + 'f produto" where
  "write_produto env p =
     (if \<not> store_int (p_quantidade p) then Inl OverflowError
      else if float_isnan env (p_preco p) then Inl IntegrityError
      else Inr (p\<lparr>p_preco_compra :=
                    (case p_preco_compra p of None \<Rightarrow> None | Some c \<Rightarrow> store_float env c)\<rparr>))"

section \<open>Sales (src/app.py, lines 244-266)\<close>

text \<open>
  The POST branch of \<open>nova_venda\<close>, from line 251 on. \<open>produto_id\<close> and \<open>quantidade\<close>
  are the integers decoded from the form in lines 248 and 250; \<open>cliente_id_form\<close> is the
  raw form field (\<open>request.form.get\<close>, so possibly absent), which the handler converts
  with \<open>int\<close> only while it builds the sale. \<open>agora\<close> is the value of \<open>datetime.now\<close>
  at the insertion.

  \<open>Produto.query.get\<close> returns \<open>None\<close> for an unknown id, and the attribute read
  \<open>produto.quantidade\<close> of line 253 then raises \<open>AttributeError\<close>, which nothing
  catches. The commit of line 264 writes the product's new quantity, then the sale row.
  A handler that ends in an exception commits nothing.
\<close>

definition nova_venda ::
  "'f python \<Rightarrow> datetime \<Rightarrow> 'f db \<Rightarrow> int \<Rightarrow> pystr option \<Rightarrow> int \<Rightarrow> resposta \<times> 'f db" where
  "nova_venda env agora s produto_id cliente_id_form quantidade =
     (case query_get p_id (produtos s) produto_id of
        Inl e \<Rightarrow> (Unhandled e, s)
      | Inr None \<Rightarrow> (Unhandled AttributeError, s)
      | Inr (Some produto) \<Rightarrow>
          if p_quantidade produto < quantidade
          then (EstoqueInsuficiente (p_quantidade produto), s)
          else
            (case float_mul_int env (p_preco produto) quantidade of
               None \<Rightarrow> (Unhandled OverflowError, s)
             | Some valor_total \<Rightarrow>
                 (case (case cliente_id_form of
                          None \<Rightarrow> Inr None
                        | Some t \<Rightarrow>
                            if t = [] then Inr None
                            else (case py_int env t of
                                    None \<Rightarrow> Inl ValueError
                                  | Some c \<Rightarrow> Inr (Some c))) of
                    Inl e \<Rightarrow> (Unhandled e, s)
                  | Inr cliente_id \<Rightarrow>
                      if \<not> store_int (p_quantidade produto - quantidade)
                      then (Unhandled OverflowError, s)
                      else
                        (case insert_venda env
                                \<lparr>v_id = next_id (map v_id (vendas s)),
                                 v_data = agora,
                                 v_quantidade = quantidade,
                                 v_valor_total = valor_total,
                                 v_produto_id = produto_id,
                                 v_cliente_id = cliente_id\<rparr> of
                           Inl e \<Rightarrow> (Unhandled e, s)
                         | Inr nova_venda \<Rightarrow>
                             (VendaRegistrada,
                              s\<lparr>produtos :=
                                   update_first (\<lambda>p. p_id p = produto_id)
                                     (\<lambda>p. p\<lparr>p_quantidade := p_quantidade p - quantidade\<rparr>)
                                     (produtos s),
                                 vendas := vendas s @ [nova_venda]\<rparr>)))))"

section \<open>Inventory and customers (src/app.py, lines 148-235)\<close>

text \<open>
  The POST branches of the product and customer handlers, on the values decoded from the
  form: \<open>int(request.form[...])\<close>, \<open>float(request.form[...])\<close>, the optional purchase
  cost (\<open>None\<close> for a missing or empty field) and the optional text fields
  (\<open>request.form.get\<close>). \<open>get_or_404\<close> answers 404 for an unknown id.
\<close>

definition adicionar ::
  "'f python \<Rightarrow> 'f db \<Rightarrow> pystr \<Rightarrow> int \<Rightarrow> 'f \<Rightarrow> 'f option \<Rightarrow> pystr option \<Rightarrow> resposta \<times> 'f db" where
  "adicionar env s nome quantidade preco p_compra validade =
     (case write_produto env
             \<lparr>p_id = next_id (map p_id (produtos s)),
              p_nome = nome,
              p_quantidade = quantidade,
              p_preco = preco,
              p_preco_compra = p_compra,
              p_validade = validade\<rparr> of
        Inl e \<Rightarrow> (Unhandled e, s)
      | Inr novo_produto \<Rightarrow> (ProdutoAdicionado, s\<lparr>produtos := produtos s @ [novo_produto]\<rparr>))"

definition editar ::
  "'f python \<Rightarrow> 'f db \<Rightarrow> int \<Rightarrow> pystr \<Rightarrow> int \<Rightarrow> 'f \<Rightarrow> 'f option \<Rightarrow> pystr option \<Rightarrow>
     resposta \<times> 'f db" where
  "editar env s ident nome quantidade preco p_compra validade =
     (case query_get p_id (produtos s) ident of
        Inl e \<Rightarrow> (Unhandled e, s)
      | Inr None \<Rightarrow> (NotFound404, s)
      | Inr (Some produto) \<Rightarrow>
          (case write_produto env
                  (produto\<lparr>p_nome := nome,
                           p_quantidade := quantidade,
                           p_preco := preco,
                           p_preco_compra := p_compra,
                           p_validade := validade\<rparr>) of
             Inl e \<Rightarrow> (Unhandled e, s)
           | Inr novo \<Rightarrow>
               (Atualizado,
                s\<lparr>produtos := update_first (\<lambda>p. p_id p = ident) (\<lambda>p. novo) (produtos s)\<rparr>)))"

definition deletar :: "'f db \<Rightarrow> int \<Rightarrow> resposta \<times> 'f db" where
  "deletar s ident =
     (case query_get p_id (produtos s) ident of
        Inl e \<Rightarrow> (Unhandled e, s)
      | Inr None \<Rightarrow> (NotFound404, s)
      | Inr (Some produto) \<Rightarrow> (Removido, s\<lparr>produtos := remove1 produto (produtos s)\<rparr>))"

definition adicionar_cliente ::
  "'f db \<Rightarrow> pystr \<Rightarrow> pystr option \<Rightarrow> pystr option \<Rightarrow> pystr option \<Rightarrow> resposta \<times> 'f db" where
  "adicionar_cliente s nome telefone email cidade =
     (let novo_cliente =
            \<lparr>c_id = next_id (map c_id (clientes s)),
             c_nome = nome,
             c_telefone = telefone,
             c_email = email,
             c_cidade = cidade\<rparr>
      in (ClienteCadastrado, s\<lparr>clientes := clientes s @ [novo_cliente]\<rparr>))"

definition editar_cliente ::
  "'f db \<Rightarrow> int \<Rightarrow> pystr \<Rightarrow> pystr option \<Rightarrow> pystr option \<Rightarrow> pystr option \<Rightarrow> resposta \<times> 'f db" where
  "editar_cliente s ident nome telefone email cidade =
     (case query_get c_id (clientes s) ident of
        Inl e \<Rightarrow> (Unhandled e, s)
      | Inr None \<Rightarrow> (NotFound404, s)
      | Inr (Some cliente) \<Rightarrow>
          (ClienteAtualizado,
           s\<lparr>clientes :=
               update_first (\<lambda>c. c_id c = ident)
                 (\<lambda>c. c\<lparr>c_nome := nome,
                         c_telefone := telefone,
                         c_email := email,
                         c_cidade := cidade\<rparr>)
                 (clientes s)\<rparr>))"

definition deletar_cliente :: "'f db \<Rightarrow> int \<Rightarrow> resposta \<times> 'f db" where
  "deletar_cliente s ident =
     (case query_get c_id (clientes s) ident of
        Inl e \<Rightarrow> (Unhandled e, s)
      | Inr None \<Rightarrow> (NotFound404, s)
      | Inr (Some cliente) \<Rightarrow> (ClienteRemovido, s\<lparr>clientes := remove1 cliente (clientes s)\<rparr>))"

section \<open>Reports (src/app.py, lines 273-301)\<close>

text \<open>
  Of the values \<open>relatorios\<close> hands to its template, the low-stock list of line 299.
  The totals and the two chart series of lines 279 to 297 are sums of floats and are left
  out. The handler only reads the store.
\<close>

definition estoque_baixo :: "'f produto list \<Rightarrow> 'f produto list" where
  "estoque_baixo ps = filter (\<lambda>p. p_quantidade p < 5) ps"

record 'f relatorio =
  r_estoque_baixo :: "'f produto list"

definition relatorios :: "'f db \<Rightarrow> 'f relatorio" where
  "relatorios s = \<lparr>r_estoque_baixo = estoque_baixo (produtos s)\<rparr>"

section \<open>CSV import (src/app.py, lines 319-359)\<close>

text \<open>
  \<open>str.strip()\<close> removes leading and trailing whitespace: the code points 9 to 13,
  28 to 32, U+0085, U+00A0, U+1680, U+2000 to U+200A, U+2028, U+2029, U+202F, U+205F
  and U+3000.
\<close>

definition py_isspace :: "nat \<Rightarrow> bool" where
  "py_isspace c =
     ((9 \<le> c \<and> c \<le> 13) \<or> (28 \<le> c \<and> c \<le> 32) \<or> c = 133 \<or> c = 160 \<or> c = 5760
      \<or> (8192 \<le> c \<and> c \<le> 8202) \<or> c = 8232 \<or> c = 8233 \<or> c = 8239 \<or> c = 8287
      \<or> c = 12288)"

definition strip :: "pystr \<Rightarrow> pystr" where
  "strip t = rev (dropWhile py_isspace (rev (dropWhile py_isspace t)))"

text \<open>\<open>t.replace(',', '.')\<close>: every comma (code 44) becomes a period (code 46).\<close>

definition replace_comma :: "pystr \<Rightarrow> pystr" where
  "replace_comma t = map (\<lambda>c. if c = 44 then 46 else c) t"

text \<open>
  Lines 336 to 343 of the loop body: the five local variables \<open>nome\<close>, \<open>qtd\<close>,
  \<open>preco_venda\<close>, \<open>preco_custo\<close>, \<open>validade\<close> of a row, or \<open>None\<close> where the body
  reaches \<open>continue\<close> (a short row, an empty name, or a \<open>ValueError\<close> from \<open>int\<close> or
  \<open>float\<close>). The test \<open>row[3]\<close> of line 342 is the truth value of a string: true unless
  the string is empty.
\<close>

definition ler_linha ::
  "'f python \<Rightarrow> pystr list \<Rightarrow> (pystr \<times> int \<times> 'f \<times> 'f \<times> pystr) option" where
  "ler_linha env row =
     (if row = [] \<or> length row < 3 then None
      else
        let nome = strip (row ! 0) in
        if nome = [] then None
        else
          (case py_int env (row ! 1) of
             None \<Rightarrow> None
           | Some qtd \<Rightarrow>
               (case py_float env (replace_comma (row ! 2)) of
                  None \<Rightarrow> None
                | Some preco_venda \<Rightarrow>
                    (case (if length row > 3 \<and> row ! 3 \<noteq> []
                           then py_float env (replace_comma (row ! 3))
                           else Some (float_zero env)) of
                       None \<Rightarrow> None
                     | Some preco_custo \<Rightarrow>
                         let validade = (if length row > 4 then strip (row ! 4) else [])
                         in Some (nome, qtd, preco_venda, preco_custo, validade)))))"

text \<open>
  Lines 345 to 352: the row's effect on the store and on the two counters.
  \<open>filter_by(nome=nome).first()\<close> is the first product of that name. The session
  flushes before each query and at the commit, so a product added by an earlier row of
  the same file is found by a later one, and a value the store refuses raises at the
  flush that follows the row. That exception is no \<open>ValueError\<close>: it leaves the loop.
\<close>

definition importar_linha ::
  "'f python \<Rightarrow> 'f db \<times> nat \<times> nat \<Rightarrow> pystr list \<Rightarrow> excecao + 'f db \<times> nat \<times> nat" where
  "importar_linha env st row =
     (case st of (s, count_novos, count_at) \<Rightarrow>
        (case ler_linha env row of
           None \<Rightarrow> Inr st
         | Some (nome, qtd, preco_venda, preco_custo, validade) \<Rightarrow>
             (case find (\<lambda>p. p_nome p = nome) (produtos s) of
                Some prod0 \<Rightarrow>
                  if \<not> store_int (p_quantidade prod0 + qtd) then Inl OverflowError
                  else
                    Inr (s\<lparr>produtos :=
                             update_first (\<lambda>p. p_nome p = nome)
                               (\<lambda>p. if float_gt0 env preco_custo
                                     then p\<lparr>p_quantidade := p_quantidade p + qtd,
                                             p_preco_compra := store_float env preco_custo\<rparr>
                                     else p\<lparr>p_quantidade := p_quantidade p + qtd\<rparr>)
                               (produtos s)\<rparr>,
                         count_novos, count_at + 1)
              | None \<Rightarrow>
                  (case write_produto env
                          \<lparr>p_id = next_id (map p_id (produtos s)),
                           p_nome = nome,
                           p_quantidade = qtd,
                           p_preco = preco_venda,
                           p_preco_compra = Some preco_custo,
                           p_validade = Some validade\<rparr> of
                     Inl e \<Rightarrow> Inl e
                   | Inr novo \<Rightarrow>
                       Inr (s\<lparr>produtos := produtos s @ [novo]\<rparr>, count_novos + 1, count_at)))))"

fun importar_linhas ::
  "'f python \<Rightarrow> 'f db \<times> nat \<times> nat \<Rightarrow> pystr list list \<Rightarrow> excecao + 'f db \<times> nat \<times> nat" where
  "importar_linhas env st [] = Inr st"
| "importar_linhas env st (row # rows) =
     (case importar_linha env st row of
        Inl e \<Rightarrow> Inl e
      | Inr st' \<Rightarrow> importar_linhas env st' rows)"

text \<open>
  The uploaded file: its name and the rows \<open>csv.reader\<close> yields for its decoded text,
  \<open>None\<close> when decoding or the reader raises. Any exception that leaves the loop
  reaches the outer \<open>except\<close>, and nothing of the import is committed.
\<close>

record upload =
  filename :: pystr
  linhas :: "pystr list list option"

definition importar_csv :: "'f python \<Rightarrow> 'f db \<Rightarrow> upload option \<Rightarrow> resposta \<times> 'f db" where
  "importar_csv env s arquivo_csv =
     (case arquivo_csv of
        None \<Rightarrow> (NenhumArquivo, s)
      | Some arquivo \<Rightarrow>
          if filename arquivo = [] then (SelecioneArquivo, s)
          else
            (case linhas arquivo of
               None \<Rightarrow> (ErroImportacao, s)
             | Some csv_input \<Rightarrow>
                 (case importar_linhas env (s, 0, 0) (drop 1 csv_input) of
                    Inl e \<Rightarrow> (ErroImportacao, s)
                  | Inr (s', count_novos, count_at) \<Rightarrow>
                      (Importacao count_novos count_at, s'))))"

section \<open>Clearing the sales history (src/app.py, lines 385-396)\<close>

text \<open>
  The handler runs inside a database session. The session is modelled by the committed
  store and the session's pending view of it; a fault says where the storage engine
  fails, if it does: while the bulk delete runs (after it removed \<open>k\<close> rows in the
  pending view) or at the commit. A commit is atomic: it publishes the pending view or,
  failing, publishes nothing. \<open>rollback\<close> discards the pending view.
\<close>

datatype falha = SemFalha | FalhaDelete nat | FalhaCommit

record 'f sessao =
  persistido :: "'f db"
  pendente :: "'f db"

definition query_venda_delete :: "falha \<Rightarrow> 'f sessao \<Rightarrow> excecao option \<times> 'f sessao" where
  "query_venda_delete f ss =
     (case f of
        FalhaDelete k \<Rightarrow>
          (Some FalhaBanco, ss\<lparr>pendente := (pendente ss)\<lparr>vendas := drop k (vendas (pendente ss))\<rparr>\<rparr>)
      | _ \<Rightarrow> (None, ss\<lparr>pendente := (pendente ss)\<lparr>vendas := []\<rparr>\<rparr>))"

definition session_commit :: "falha \<Rightarrow> 'f sessao \<Rightarrow> excecao option \<times> 'f sessao" where
  "session_commit f ss =
     (case f of
        FalhaCommit \<Rightarrow> (Some FalhaBanco, ss)
      | _ \<Rightarrow> (None, ss\<lparr>persistido := pendente ss\<rparr>))"

definition session_rollback :: "'f sessao \<Rightarrow> 'f sessao" where
  "session_rollback ss = ss\<lparr>pendente := persistido ss\<rparr>"

definition limpar_vendas :: "falha \<Rightarrow> 'f db \<Rightarrow> resposta \<times> 'f sessao" where
  "limpar_vendas f s =
     (case query_venda_delete f \<lparr>persistido = s, pendente = s\<rparr> of
        (Some e, ss) \<Rightarrow> (ErroLimpar, session_rollback ss)
      | (None, ss) \<Rightarrow>
          (case session_commit f ss of
             (Some e, ss') \<Rightarrow> (ErroLimpar, session_rollback ss')
           | (None, ss') \<Rightarrow> (HistoricoLimpo, ss')))"

section \<open>The system as a state machine\<close>

text \<open>
  One request that passed the login gate, and the store it leaves. The handlers that
  only read (the listings, the reports, the exports, the CSV template) leave the store
  as it is.
\<close>

datatype 'f operacao =
    OpAdicionar pystr int 'f "'f option" "pystr option"
  | OpEditar int pystr int 'f "'f option" "pystr option"
  | OpDeletar int
  | OpAdicionarCliente pystr "pystr option" "pystr option" "pystr option"
  | OpEditarCliente int pystr "pystr option" "pystr option" "pystr option"
  | OpDeletarCliente int
  | OpNovaVenda datetime int "pystr option" int
  | OpImportarCsv "upload option"
  | OpLimparVendas falha
  | OpRelatorios
  | OpExportar pystr
  | OpListar

fun executar :: "'f python \<Rightarrow> 'f db \<Rightarrow> 'f operacao \<Rightarrow> 'f db" where
  "executar env s (OpAdicionar n q p c v) = snd (adicionar env s n q p c v)"
| "executar env s (OpEditar i n q p c v) = snd (editar env s i n q p c v)"
| "executar env s (OpDeletar i) = snd (deletar s i)"
| "executar env s (OpAdicionarCliente n t e c) = snd (adicionar_cliente s n t e c)"
| "executar env s (OpEditarCliente i n t e c) = snd (editar_cliente s i n t e c)"
| "executar env s (OpDeletarCliente i) = snd (deletar_cliente s i)"
| "executar env s (OpNovaVenda agora i cf q) = snd (nova_venda env agora s i cf q)"
| "executar env s (OpImportarCsv a) = snd (importar_csv env s a)"
| "executar env s (OpLimparVendas f) = persistido (snd (limpar_vendas f s))"
| "executar env s OpRelatorios = s"
| "executar env s (OpExportar tipo) = s"
| "executar env s OpListar = s"

fun executar_todas :: "'f python \<Rightarrow> 'f db \<Rightarrow> 'f operacao list \<Rightarrow> 'f db" where
  "executar_todas env s [] = s"
| "executar_todas env s (op # ops) = executar_todas env (executar env s op) ops"

section \<open>Sample data\<close>

text \<open>
  A small store and an interpreter for the examples. The sample floats are the whole
  numbers and halves the examples use, written as reals: on them the products of
  doubles are exact. The two parsers agree with Python's \<open>int\<close> and \<open>float\<close> on the
  strings listed and reject every other string. \<open>ascii\<close> writes an ASCII text as code
  points.
\<close>

definition ascii :: "string \<Rightarrow> pystr" where
  "ascii t = map of_char t"

definition env0 :: "real python" where
  "env0 =
     \<lparr>py_int = map_of [(ascii ''5'', 5), (ascii ''0'', 0), (ascii ''7'', 7),
                        (ascii ''9223372036854775807'', 9223372036854775807)],
      py_float = map_of [(ascii ''10.50'', 21 / 2), (ascii ''2.00'', 2), (ascii ''0'', 0)],
      float_mul_int = (\<lambda>x n. Some (x * of_int n)),
      float_gt0 = (\<lambda>x. 0 < x),
      float_lt0 = (\<lambda>x. x < 0),
      float_zero = 0,
      float_isnan = (\<lambda>x. False)\<rparr>"

definition widget :: "real produto" where
  "widget = \<lparr>p_id = 1, p_nome = ascii ''Widget'', p_quantidade = 10, p_preco = 5,
             p_preco_compra = Some 2, p_validade = None\<rparr>"

definition widget2 :: "real produto" where
  "widget2 = \<lparr>p_id = 2, p_nome = ascii ''Widget'', p_quantidade = 4, p_preco = 6,
              p_preco_compra = Some 3, p_validade = None\<rparr>"

definition parafuso :: "real produto" where
  "parafuso = \<lparr>p_id = 3, p_nome = ascii ''Parafuso'', p_quantidade = 5, p_preco = 1,
               p_preco_compra = None, p_validade = Some []\<rparr>"

definition prego :: "real produto" where
  "prego = \<lparr>p_id = 4, p_nome = ascii ''Prego'', p_quantidade = 0, p_preco = 1,
            p_preco_compra = None, p_validade = None\<rparr>"

definition venda1 :: "real venda" where
  "venda1 = \<lparr>v_id = 1, v_data = 100, v_quantidade = 2, v_valor_total = 10,
             v_produto_id = 1, v_cliente_id = None\<rparr>"

definition venda2 :: "real venda" where
  "venda2 = \<lparr>v_id = 2, v_data = 150, v_quantidade = 1, v_valor_total = 6,
             v_produto_id = 2, v_cliente_id = Some 1\<rparr>"

definition loja :: "real db" where
  "loja = \<lparr>produtos = [widget, widget2, parafuso], clientes = [], vendas = [venda1]\<rparr>"

definition loja2 :: "real db" where
  "loja2 = \<lparr>produtos = [widget, prego], clientes = [], vendas = [venda1, venda2]\<rparr>"

section \<open>Facts about the store primitives\<close>

lemma update_first_find:
  "find P xs = Some x \<Longrightarrow>
     \<exists>i<length xs. xs ! i = x \<and> P x \<and> (\<forall>j<i. \<not> P (xs ! j)) \<and>
       update_first P f xs = xs[i := f x]"
proof (induction xs)
  case Nil
  then show ?case by simp
next
  case (Cons y ys)
  show ?case
  proof (cases "P y")
    case True
    with Cons.prems have "y = x" by simp
    with True show ?thesis by (intro exI[of _ 0]) simp
  next
    case False
    with Cons.prems have "find P ys = Some x" by simp
    from Cons.IH[OF this] obtain i where i: "i < length ys" "ys ! i = x" "P x"
      "\<forall>j<i. \<not> P (ys ! j)" "update_first P f ys = ys[i := f x]" by blast
    have "\<forall>j<Suc i. \<not> P ((y # ys) ! j)"
      using False i(4) by (auto simp: nth_Cons split: nat.splits)
    with False i show ?thesis by (intro exI[of _ "Suc i"]) simp
  qed
qed

lemma find_update_first:
  "find P xs = Some x \<Longrightarrow> P (f x) \<Longrightarrow> find P (update_first P f xs) = Some (f x)"
  by (induction xs) (auto split: if_splits)


lemma fold_max_ge: "(a::int) \<le> fold max xs a"
proof (induction xs arbitrary: a)
  case Nil
  show ?case by simp
next
  case (Cons x xs)
  have "a \<le> max x a" by simp
  also have "\<dots> \<le> fold max xs (max x a)" by (rule Cons.IH)
  finally show ?case by simp
qed

lemma fold_max_mem: "(x::int) \<in> set xs \<Longrightarrow> x \<le> fold max xs a"
proof (induction xs arbitrary: a)
  case Nil
  then show ?case by simp
next
  case (Cons y ys)
  show ?case
  proof (cases "x = y")
    case True
    have "x \<le> max y a" using True by simp
    also have "\<dots> \<le> fold max ys (max y a)" by (rule fold_max_ge)
    finally show ?thesis by simp
  next
    case False
    with Cons.prems have "x \<in> set ys" by simp
    from Cons.IH[OF this] show ?thesis by simp
  qed
qed

lemma next_id_fresh: "next_id ids \<notin> set ids"
proof
  assume "next_id ids \<in> set ids"
  then have "next_id ids \<le> fold max ids 0" by (rule fold_max_mem)
  then show False by (simp add: next_id_def)
qed

section \<open>Sales: what a request does to the store\<close>

lemma query_get_index:
  "query_get pk rows i = Inr (Some r) \<Longrightarrow>
     \<exists>k<length rows. rows ! k = r \<and> pk r = i \<and> (\<forall>j<k. pk (rows ! j) \<noteq> i) \<and>
       update_first (\<lambda>x. pk x = i) f rows = rows[k := f r]"
  unfolding query_get_def
  by (cases "store_int i") (auto dest: update_first_find[where f = f])

lemma query_get_None_iff:
  "(query_get pk rows i = Inr None) = (store_int i \<and> i \<notin> set (map pk rows))"
  by (auto simp: query_get_def find_None_iff)

lemma nova_venda_found:
  assumes "query_get p_id (produtos s) pid = Inr (Some P)"
  shows "nova_venda env agora s pid cf q =
     (if p_quantidade P < q then (EstoqueInsuficiente (p_quantidade P), s)
      else
        (case float_mul_int env (p_preco P) q of
           None \<Rightarrow> (Unhandled OverflowError, s)
         | Some valor_total \<Rightarrow>
             (case (case cf of None \<Rightarrow> Inr None
                    | Some t \<Rightarrow> if t = [] then Inr None
                        else (case py_int env t of None \<Rightarrow> Inl ValueError | Some c \<Rightarrow> Inr (Some c))) of
                Inl e \<Rightarrow> (Unhandled e, s)
              | Inr cliente_id \<Rightarrow>
                  if \<not> store_int (p_quantidade P - q) then (Unhandled OverflowError, s)
                  else
                    (case insert_venda env
                            \<lparr>v_id = next_id (map v_id (vendas s)), v_data = agora,
                             v_quantidade = q, v_valor_total = valor_total,
                             v_produto_id = pid, v_cliente_id = cliente_id\<rparr> of
                       Inl e \<Rightarrow> (Unhandled e, s)
                     | Inr nova \<Rightarrow>
                         (VendaRegistrada,
                          s\<lparr>produtos := update_first (\<lambda>p. p_id p = pid)
                                (\<lambda>p. p\<lparr>p_quantidade := p_quantidade p - q\<rparr>) (produtos s),
                            vendas := vendas s @ [nova]\<rparr>)))))"
  using assms by (simp add: nova_venda_def)

lemma insert_venda_Inr: "insert_venda env v = Inr v' \<Longrightarrow> v' = v"
  by (auto simp: insert_venda_def split: if_splits)

lemma nova_venda_registrada:
  assumes "nova_venda env agora s pid cf q = (VendaRegistrada, s')"
  shows "\<exists>P cid x. query_get p_id (produtos s) pid = Inr (Some P) \<and> q \<le> p_quantidade P \<and>
           float_mul_int env (p_preco P) q = Some x \<and>
           s' = s\<lparr>produtos := update_first (\<lambda>p. p_id p = pid)
                     (\<lambda>p. p\<lparr>p_quantidade := p_quantidade p - q\<rparr>) (produtos s),
                  vendas := vendas s @
                    [\<lparr>v_id = next_id (map v_id (vendas s)), v_data = agora, v_quantidade = q,
                      v_valor_total = x, v_produto_id = pid, v_cliente_id = cid\<rparr>]\<rparr>"
proof (cases "query_get p_id (produtos s) pid")
  case (Inl e)
  with assms show ?thesis by (simp add: nova_venda_def)
next
  case (Inr r)
  show ?thesis
  proof (cases r)
    case None
    with Inr assms show ?thesis by (simp add: nova_venda_def)
  next
    case (Some P)
    with Inr have g: "query_get p_id (produtos s) pid = Inr (Some P)" by simp
    from assms show ?thesis
      unfolding nova_venda_found[OF g] using g
      by (auto split: if_splits option.splits sum.splits dest!: insert_venda_Inr)
  qed
qed

lemma nova_venda_efeito:
  assumes "query_get p_id (produtos s) pid = Inr (Some P)"
      and "nova_venda env agora s pid cf q = (VendaRegistrada, s')"
  shows "query_get p_id (produtos s') pid = Inr (Some (P\<lparr>p_quantidade := p_quantidade P - q\<rparr>))
       \<and> (\<exists>k<length (produtos s). produtos s ! k = P \<and>
             produtos s' = (produtos s)[k := P\<lparr>p_quantidade := p_quantidade P - q\<rparr>])
       \<and> (\<exists>v. vendas s' = vendas s @ [v]
               \<and> float_mul_int env (p_preco P) q = Some (v_valor_total v)
               \<and> v_quantidade v = q \<and> v_produto_id v = pid)
       \<and> clientes s' = clientes s"
proof -
  let ?f = "\<lambda>p. p\<lparr>p_quantidade := p_quantidade p - q\<rparr>"
  from nova_venda_registrada[OF assms(2)] assms(1) obtain cid x where
    x: "float_mul_int env (p_preco P) q = Some x" and
    s': "s' = s\<lparr>produtos := update_first (\<lambda>p. p_id p = pid) ?f (produtos s),
                  vendas := vendas s @
                    [\<lparr>v_id = next_id (map v_id (vendas s)), v_data = agora, v_quantidade = q,
                      v_valor_total = x, v_produto_id = pid, v_cliente_id = cid\<rparr>]\<rparr>"
    by auto
  from assms(1) have rng: "store_int pid" and fnd: "find (\<lambda>p. p_id p = pid) (produtos s) = Some P"
    by (auto simp: query_get_def split: if_splits)
  from query_get_index[OF assms(1), of ?f] obtain k where
    k: "k < length (produtos s)" "produtos s ! k = P" "p_id P = pid"
       "update_first (\<lambda>x. p_id x = pid) ?f (produtos s) = (produtos s)[k := ?f P]"
    by blast
  from fnd have "find (\<lambda>p. p_id p = pid) (update_first (\<lambda>p. p_id p = pid) ?f (produtos s))
      = Some (?f P)"
    by (rule find_update_first) (simp add: k(3))
  then have a: "query_get p_id (produtos s') pid = Inr (Some (?f P))"
    using rng by (simp add: query_get_def s')
  have b: "\<exists>k<length (produtos s). produtos s ! k = P \<and> produtos s' = (produtos s)[k := ?f P]"
    using k by (auto simp: s')
  have c: "\<exists>v. vendas s' = vendas s @ [v]
               \<and> float_mul_int env (p_preco P) q = Some (v_valor_total v)
               \<and> v_quantidade v = q \<and> v_produto_id v = pid"
    using x by (simp add: s')
  have d: "clientes s' = clientes s" by (simp add: s')
  from a b c d show ?thesis by blast
qed

text \<open>
  Claim C1. For a stored product \<open>P\<close> and a requested quantity \<open>q \<le> P.quantity\<close>, a
  sale that is registered leaves \<open>P\<close> in the product table with its quantity lowered by
  \<open>q\<close> (that one row is rewritten, no other), appends exactly one sale row, whose
  \<open>valor_total\<close> is the float product of the price of \<open>P\<close>, as read from the store
  before the sale, and \<open>q\<close> (the value \<open>float_mul_int\<close> gives, whatever its rounding),
  and leaves the customers alone.
\<close>

theorem nova_venda_sucesso:
  assumes "query_get p_id (produtos s) pid = Inr (Some P)"
      and "q \<le> p_quantidade P"
      and "nova_venda env agora s pid cf q = (VendaRegistrada, s')"
  shows "query_get p_id (produtos s') pid = Inr (Some (P\<lparr>p_quantidade := p_quantidade P - q\<rparr>))
       \<and> (\<exists>k<length (produtos s). produtos s ! k = P \<and>
             produtos s' = (produtos s)[k := P\<lparr>p_quantidade := p_quantidade P - q\<rparr>])
       \<and> (\<exists>v. vendas s' = vendas s @ [v]
               \<and> float_mul_int env (p_preco P) q = Some (v_valor_total v)
               \<and> v_quantidade v = q \<and> v_produto_id v = pid)
       \<and> clientes s' = clientes s"
  using assms(1) assms(3) by (rule nova_venda_efeito)

lemma loja_get_1: "query_get p_id (produtos loja) 1 = Inr (Some widget)"
  by (simp add: query_get_def store_int_def loja_def widget_def)

lemma loja_get_2: "query_get p_id (produtos loja) 2 = Inr (Some widget2)"
  by (simp add: query_get_def store_int_def loja_def widget_def widget2_def)

theorem nova_venda_sucesso_witness:
  "nova_venda env0 200 loja 1 None 3 =
     (VendaRegistrada,
      loja\<lparr>produtos := [widget\<lparr>p_quantidade := 7\<rparr>, widget2, parafuso],
           vendas := [venda1, \<lparr>v_id = 2, v_data = 200, v_quantidade = 3, v_valor_total = 15,
                               v_produto_id = 1, v_cliente_id = None\<rparr>]\<rparr>)
   \<and> query_get p_id (produtos (snd (nova_venda env0 200 loja 1 None 3))) 1
       = Inr (Some (widget\<lparr>p_quantidade := 7\<rparr>))
   \<and> float_mul_int env0 (p_preco widget) 3 = Some 15"
proof -
  have r: "nova_venda env0 200 loja 1 None 3 =
     (VendaRegistrada,
      loja\<lparr>produtos := [widget\<lparr>p_quantidade := 7\<rparr>, widget2, parafuso],
           vendas := [venda1, \<lparr>v_id = 2, v_data = 200, v_quantidade = 3, v_valor_total = 15,
                               v_produto_id = 1, v_cliente_id = None\<rparr>]\<rparr>)"
    unfolding nova_venda_found[OF loja_get_1]
    by (simp add: insert_venda_def store_int_def env0_def loja_def widget_def venda1_def
          next_id_def)
  have le: "(3::int) \<le> p_quantidade widget" by (simp add: widget_def)
  have m: "float_mul_int env0 (p_preco widget) 3 = Some 15"
    by (simp add: env0_def widget_def)
  from nova_venda_sucesso[OF loja_get_1 le r] show ?thesis
    using r m by (simp add: widget_def)
qed

text \<open>
  Claim C2. For a stored product \<open>P\<close>, the request ends with the notice
  \<open>EstoqueInsuficiente\<close> exactly when the requested quantity exceeds \<open>P.quantity\<close>;
  the notice then carries the quantity in stock and the store is the one before the
  request: no quantity changed, no sale row inserted.
\<close>

theorem estoque_insuficiente:
  assumes "query_get p_id (produtos s) pid = Inr (Some P)"
  shows "((\<exists>n. fst (nova_venda env agora s pid cf q) = EstoqueInsuficiente n) = (p_quantidade P < q))
       \<and> (p_quantidade P < q \<longrightarrow>
            nova_venda env agora s pid cf q = (EstoqueInsuficiente (p_quantidade P), s))"
  unfolding nova_venda_found[OF assms]
  by (auto split: option.splits sum.splits)

theorem estoque_insuficiente_witness:
  "query_get p_id (produtos loja) 2 = Inr (Some widget2)
   \<and> nova_venda env0 200 loja 2 None 5 = (EstoqueInsuficiente 4, loja)
   \<and> fst (nova_venda env0 200 loja 2 None 4) = VendaRegistrada"
proof -
  have q: "p_quantidade widget2 = 4" by (simp add: widget2_def)
  have "fst (nova_venda env0 200 loja 2 None 4) = VendaRegistrada"
    unfolding nova_venda_found[OF loja_get_2]
    by (simp add: q insert_venda_def store_int_def env0_def)
  with estoque_insuficiente[OF loja_get_2, of env0 200 None 5] loja_get_2 q show ?thesis by simp
qed

text \<open>
  An id that no stored product has does not always lead to the stock check: for the id
  \<open>2^63\<close> the lookup itself is refused by the store and the request ends in
  \<open>OverflowError\<close>, not in the \<open>AttributeError\<close> of line 253.
\<close>

theorem produto_inexistente_counterexample:
  "9223372036854775808 \<notin> set (map p_id (produtos loja))
   \<and> nova_venda env0 200 loja 9223372036854775808 None 1 = (Unhandled OverflowError, loja)
   \<and> fst (nova_venda env0 200 loja 9223372036854775808 None 1) \<noteq> Unhandled AttributeError"
  by (simp add: nova_venda_def query_get_def store_int_def loja_def widget_def widget2_def
        parafuso_def)

text \<open>
  Claim C8, amended. The request ends in the uncaught \<open>AttributeError\<close> of the stock
  check exactly when the requested id fits the store's 64-bit integers and no stored
  product has it; the store is then untouched, and the answer is neither the
  insufficient-stock notice nor a 404. An id outside that range ends in an uncaught
  \<open>OverflowError\<close> at the lookup, the store untouched as well. When the product exists
  the \<open>AttributeError\<close> branch is not reached.
\<close>

theorem produto_inexistente:
  "((fst (nova_venda env agora s pid cf q) = Unhandled AttributeError)
      = (store_int pid \<and> pid \<notin> set (map p_id (produtos s))))
   \<and> (store_int pid \<longrightarrow> pid \<notin> set (map p_id (produtos s)) \<longrightarrow>
        nova_venda env agora s pid cf q = (Unhandled AttributeError, s))
   \<and> (\<not> store_int pid \<longrightarrow>
        nova_venda env agora s pid cf q = (Unhandled OverflowError, s))"
proof (cases "query_get p_id (produtos s) pid")
  case (Inl e)
  then have "\<not> store_int pid" "e = OverflowError"
    by (auto simp: query_get_def split: if_splits)
  with Inl show ?thesis by (simp add: nova_venda_def)
next
  case (Inr r)
  then have rng: "store_int pid" by (auto simp: query_get_def split: if_splits)
  show ?thesis
  proof (cases r)
    case None
    with Inr have n: "query_get p_id (produtos s) pid = Inr None" by simp
    then have "pid \<notin> set (map p_id (produtos s))" by (simp add: query_get_None_iff)
    with n rng show ?thesis by (simp add: nova_venda_def)
  next
    case (Some P)
    with Inr have g: "query_get p_id (produtos s) pid = Inr (Some P)" by simp
    then have "query_get p_id (produtos s) pid \<noteq> Inr None" by simp
    then have m: "\<not> (store_int pid \<and> pid \<notin> set (map p_id (produtos s)))"
      using query_get_None_iff[of p_id "produtos s" pid] by simp
    have "fst (nova_venda env agora s pid cf q) \<noteq> Unhandled AttributeError"
      unfolding nova_venda_found[OF g]
      by (auto simp: insert_venda_def split: option.splits sum.splits)
    with m rng show ?thesis by blast
  qed
qed

theorem produto_inexistente_witness:
  "store_int 9 \<and> 9 \<notin> set (map p_id (produtos loja))
   \<and> nova_venda env0 200 loja 9 None 1 = (Unhandled AttributeError, loja)
   \<and> 1 \<in> set (map p_id (produtos loja))
   \<and> fst (nova_venda env0 200 loja 1 None 1) \<noteq> Unhandled AttributeError
   \<and> \<not> store_int 9223372036854775808
   \<and> nova_venda env0 200 loja 9223372036854775808 None 1 = (Unhandled OverflowError, loja)"
proof -
  have a: "store_int 9" "\<not> store_int 9223372036854775808" by (simp_all add: store_int_def)
  have b: "9 \<notin> set (map p_id (produtos loja))" "1 \<in> set (map p_id (produtos loja))"
    by (simp_all add: loja_def widget_def widget2_def parafuso_def)
  from produto_inexistente[of env0 200 loja 9 None 1]
       produto_inexistente[of env0 200 loja 1 None 1]
       produto_inexistente[of env0 200 loja 9223372036854775808 None 1] a b
  show ?thesis by simp
qed




section \<open>Reports: the low-stock list\<close>

text \<open>
  Claim C7. The low-stock list of the report holds exactly the stored products whose
  quantity is strictly below 5: a product is in the list if and only if it is stored
  with a quantity below 5, and it occurs there as often as it is stored; products with a
  quantity of 5 or more do not occur.
\<close>

theorem estoque_baixo_exato:
  "(p \<in> set (r_estoque_baixo (relatorios s))) = (p \<in> set (produtos s) \<and> p_quantidade p < 5)
   \<and> count_list (r_estoque_baixo (relatorios s)) p
       = (if p_quantidade p < 5 then count_list (produtos s) p else 0)
   \<and> r_estoque_baixo (relatorios s) = estoque_baixo (produtos s)"
proof -
  have "count_list (filter P xs) x = (if P x then count_list xs x else 0)"
    for P and xs :: "'a produto list" and x
    by (induction xs) auto
  then show ?thesis
    by (simp add: relatorios_def estoque_baixo_def)
qed

theorem estoque_baixo_exato_witness:
  "r_estoque_baixo (relatorios (loja\<lparr>produtos := [widget, widget2, parafuso, prego]\<rparr>))
     = [widget2, prego]
   \<and> p_quantidade widget2 = 4 \<and> p_quantidade parafuso = 5 \<and> p_quantidade prego = 0
   \<and> p_quantidade widget = 10"
  using estoque_baixo_exato[of widget "loja\<lparr>produtos := [widget, widget2, parafuso, prego]\<rparr>"]
  by (simp add: estoque_baixo_def widget_def widget2_def parafuso_def prego_def)

section \<open>Clearing the sales history: all or nothing\<close>

text \<open>
  Claim C5. Without a fault the handler reports success and the committed store has no
  sale row left, with the products and the customers as before. With a fault, during the
  bulk delete (whatever number of rows it had removed) or at the commit, the handler
  reports the error and the store, committed and pending, is the one before the call:
  every sale row remains.
\<close>

theorem limpar_vendas_transacao:
  "(f = SemFalha \<longrightarrow>
      fst (limpar_vendas f s) = HistoricoLimpo
      \<and> vendas (persistido (snd (limpar_vendas f s))) = []
      \<and> produtos (persistido (snd (limpar_vendas f s))) = produtos s
      \<and> clientes (persistido (snd (limpar_vendas f s))) = clientes s
      \<and> pendente (snd (limpar_vendas f s)) = persistido (snd (limpar_vendas f s)))
   \<and> (f \<noteq> SemFalha \<longrightarrow>
      limpar_vendas f s = (ErroLimpar, \<lparr>persistido = s, pendente = s\<rparr>))"
  by (cases f)
     (simp_all add: limpar_vendas_def query_venda_delete_def session_commit_def
        session_rollback_def)

theorem limpar_vendas_transacao_witness:
  "vendas loja2 = [venda1, venda2]
   \<and> limpar_vendas SemFalha loja2
       = (HistoricoLimpo, \<lparr>persistido = loja2\<lparr>vendas := []\<rparr>, pendente = loja2\<lparr>vendas := []\<rparr>\<rparr>)
   \<and> limpar_vendas (FalhaDelete 1) loja2 = (ErroLimpar, \<lparr>persistido = loja2, pendente = loja2\<rparr>)
   \<and> limpar_vendas FalhaCommit loja2 = (ErroLimpar, \<lparr>persistido = loja2, pendente = loja2\<rparr>)"
proof -
  have a: "limpar_vendas SemFalha loja2
       = (HistoricoLimpo, \<lparr>persistido = loja2\<lparr>vendas := []\<rparr>, pendente = loja2\<lparr>vendas := []\<rparr>\<rparr>)"
    by (simp add: limpar_vendas_def query_venda_delete_def session_commit_def)
  from limpar_vendas_transacao[of "FalhaDelete 1" loja2] limpar_vendas_transacao[of FalhaCommit loja2]
       limpar_vendas_transacao[of SemFalha loja2] a
  show ?thesis by (simp add: loja2_def)
qed

section \<open>CSV import: reading a row\<close>

lemma importar_linha_lida:
  assumes "ler_linha env row = Some (nome, qtd, preco_venda, preco_custo, validade)"
  shows "importar_linha env (s, n, a) row =
     (case find (\<lambda>p. p_nome p = nome) (produtos s) of
        Some prod0 \<Rightarrow>
          if \<not> store_int (p_quantidade prod0 + qtd) then Inl OverflowError
          else
            Inr (s\<lparr>produtos :=
                     update_first (\<lambda>p. p_nome p = nome)
                       (\<lambda>p. if float_gt0 env preco_custo
                             then p\<lparr>p_quantidade := p_quantidade p + qtd,
                                     p_preco_compra := store_float env preco_custo\<rparr>
                             else p\<lparr>p_quantidade := p_quantidade p + qtd\<rparr>)
                       (produtos s)\<rparr>, n, a + 1)
      | None \<Rightarrow>
          (case write_produto env
                  \<lparr>p_id = next_id (map p_id (produtos s)), p_nome = nome, p_quantidade = qtd,
                   p_preco = preco_venda, p_preco_compra = Some preco_custo,
                   p_validade = Some validade\<rparr> of
             Inl e \<Rightarrow> Inl e
           | Inr novo \<Rightarrow> Inr (s\<lparr>produtos := produtos s @ [novo]\<rparr>, n + 1, a)))"
  using assms by (simp add: importar_linha_def)

lemma importar_linha_ignorada:
  "ler_linha env row = None \<Longrightarrow> importar_linha env st row = Inr st"
  by (cases st) (simp add: importar_linha_def)


lemma importar_linhas_append:
  "importar_linhas env st (xs @ ys)
     = (case importar_linhas env st xs of
          Inl e \<Rightarrow> Inl e
        | Inr st' \<Rightarrow> importar_linhas env st' ys)"
  by (induction xs arbitrary: st) (auto split: sum.splits)

lemma importar_linhas_ignorada:
  "ler_linha env row = None \<Longrightarrow>
     importar_linhas env st (pre @ row # pos) = importar_linhas env st (pre @ pos)"
  by (simp add: importar_linhas_append importar_linha_ignorada split: sum.splits)

lemma importar_csv_linhas:
  "nome_arquivo \<noteq> [] \<Longrightarrow>
     importar_csv env s (Some \<lparr>filename = nome_arquivo, linhas = Some (cabecalho # rows)\<rparr>)
       = (case importar_linhas env (s, 0, 0) rows of
            Inl e \<Rightarrow> (ErroImportacao, s)
          | Inr (s', count_novos, count_at) \<Rightarrow> (Importacao count_novos count_at, s'))"
  by (simp add: importar_csv_def)


lemma rev_drop_take:
  "x = rev (dropWhile P (rev x)) @ rev (takeWhile P (rev x))"
proof -
  have "rev (dropWhile P (rev x)) @ rev (takeWhile P (rev x))
      = rev (takeWhile P (rev x) @ dropWhile P (rev x))"
    by (simp only: rev_append)
  also have "\<dots> = rev (rev x)" by (simp only: takeWhile_dropWhile_id)
  also have "\<dots> = x" by simp
  finally show ?thesis by simp
qed

lemma strip_decomp:
  "\<exists>a b. t = a @ strip t @ b \<and> (\<forall>c\<in>set a. py_isspace c) \<and> (\<forall>c\<in>set b. py_isspace c)"
proof -
  let ?u = "dropWhile py_isspace t"
  have 1: "t = takeWhile py_isspace t @ ?u" by simp
  have 2: "?u = strip t @ rev (takeWhile py_isspace (rev ?u))"
    unfolding strip_def by (rule rev_drop_take)
  have 3: "\<forall>c\<in>set (takeWhile py_isspace t). py_isspace c"
    by (auto dest: set_takeWhileD)
  have 4: "\<forall>c\<in>set (rev (takeWhile py_isspace (rev ?u))). py_isspace c"
    by (auto dest: set_takeWhileD)
  from 1 2 have "t = takeWhile py_isspace t @ strip t @ rev (takeWhile py_isspace (rev ?u))"
    by simp
  with 3 4 show ?thesis by blast
qed

lemma strip_ends:
  assumes "strip t \<noteq> []"
  shows "\<not> py_isspace (hd (strip t)) \<and> \<not> py_isspace (last (strip t))"
proof -
  let ?u = "dropWhile py_isspace t"
  let ?w = "dropWhile py_isspace (rev ?u)"
  from assms have w: "?w \<noteq> []" by (simp add: strip_def)
  have l: "last (strip t) = hd ?w" using w by (simp add: strip_def last_rev)
  have "\<not> py_isspace (hd ?w)" using w by (rule hd_dropWhile)
  then have a: "\<not> py_isspace (last (strip t))" by (simp add: l)
  have u: "?u = strip t @ rev (takeWhile py_isspace (rev ?u))"
    unfolding strip_def by (rule rev_drop_take)
  have une: "?u \<noteq> []"
  proof
    assume "?u = []"
    then have "strip t = rev (dropWhile py_isspace (rev []))"
      unfolding strip_def by (simp only:)
    then have "strip t = []" by simp
    with assms show False by simp
  qed
  have "hd ?u = hd (strip t @ rev (takeWhile py_isspace (rev ?u)))" using u by simp
  also have "\<dots> = hd (strip t)" using assms by simp
  finally have h: "hd (strip t) = hd ?u" by simp
  have "\<not> py_isspace (hd ?u)" using une by (rule hd_dropWhile)
  with h a show ?thesis by simp
qed

lemma replace_comma_nth:
  "i < length t \<Longrightarrow> replace_comma t ! i = (if t ! i = 44 then 46 else t ! i)"
  by (simp add: replace_comma_def)

lemma ler_linha_Some_iff:
  "(ler_linha env row = Some (nome, qtd, preco_venda, preco_custo, validade)) =
     (3 \<le> length row \<and> nome = strip (row ! 0) \<and> nome \<noteq> []
      \<and> py_int env (row ! 1) = Some qtd
      \<and> py_float env (replace_comma (row ! 2)) = Some preco_venda
      \<and> (if 3 < length row \<and> row ! 3 \<noteq> []
          then py_float env (replace_comma (row ! 3)) = Some preco_custo
          else preco_custo = float_zero env)
      \<and> validade = (if 4 < length row then strip (row ! 4) else []))"
  by (auto simp: ler_linha_def Let_def split: option.splits if_splits)

lemma ler_linha_None_iff:
  "(ler_linha env row = None) =
     (length row < 3 \<or> strip (row ! 0) = [] \<or> py_int env (row ! 1) = None
      \<or> py_float env (replace_comma (row ! 2)) = None
      \<or> (3 < length row \<and> row ! 3 \<noteq> [] \<and> py_float env (replace_comma (row ! 3)) = None))"
  by (auto simp: ler_linha_def Let_def split: option.splits if_splits)

text \<open>
  Claim C6. What the import does with one row after the header. A row is read (its five
  values are produced) exactly when it has at least three columns, its first column is
  not empty once trimmed, its second column is accepted by \<open>int\<close>, and its third
  column, and its fourth when present and not empty, are accepted by \<open>float\<close> after
  every comma was replaced by a period; the cost is \<open>0.0\<close> when the fourth column is
  absent or empty, the expiry is the empty string when the fifth column is absent and
  the trimmed fifth column otherwise. A row is skipped exactly in the remaining cases
  (too short, blank name, a number that does not parse), and a skipped row leaves no
  trace: the import of the file answers, and leaves the store, as the import of the file
  without that row. The first row of the file, the header, is not processed. Trimming
  removes a run of whitespace at each end and nothing else: what remains neither starts
  nor ends with whitespace, where whitespace is the set of code points that \<open>str.strip\<close>
  removes. Replacing keeps the length and changes the commas only.
\<close>

theorem ler_linha_regras:
  "((ler_linha env row = Some (nome, qtd, preco_venda, preco_custo, validade)) =
     (3 \<le> length row \<and> nome = strip (row ! 0) \<and> nome \<noteq> []
      \<and> py_int env (row ! 1) = Some qtd
      \<and> py_float env (replace_comma (row ! 2)) = Some preco_venda
      \<and> (if 3 < length row \<and> row ! 3 \<noteq> []
          then py_float env (replace_comma (row ! 3)) = Some preco_custo
          else preco_custo = float_zero env)
      \<and> validade = (if 4 < length row then strip (row ! 4) else [])))
   \<and> ((ler_linha env row = None) =
     (length row < 3 \<or> strip (row ! 0) = [] \<or> py_int env (row ! 1) = None
      \<or> py_float env (replace_comma (row ! 2)) = None
      \<or> (3 < length row \<and> row ! 3 \<noteq> [] \<and> py_float env (replace_comma (row ! 3)) = None)))
   \<and> (ler_linha env row = None \<longrightarrow>
        importar_csv env s
            (Some \<lparr>filename = nome_arquivo, linhas = Some (cabecalho # pre @ row # pos)\<rparr>)
          = importar_csv env s
            (Some \<lparr>filename = nome_arquivo, linhas = Some (cabecalho # pre @ pos)\<rparr>))
   \<and> (nome_arquivo \<noteq> [] \<longrightarrow>
        importar_csv env s (Some \<lparr>filename = nome_arquivo, linhas = Some (cabecalho # rows)\<rparr>)
          = (case importar_linhas env (s, 0, 0) rows of
               Inl e \<Rightarrow> (ErroImportacao, s)
             | Inr (s', count_novos, count_at) \<Rightarrow> (Importacao count_novos count_at, s')))
   \<and> (\<exists>a b. t = a @ strip t @ b \<and> (\<forall>c\<in>set a. py_isspace c) \<and> (\<forall>c\<in>set b. py_isspace c))
   \<and> (strip t \<noteq> [] \<longrightarrow> \<not> py_isspace (hd (strip t)) \<and> \<not> py_isspace (last (strip t)))
   \<and> length (replace_comma t) = length t
   \<and> (\<forall>i<length t. replace_comma t ! i = (if t ! i = 44 then 46 else t ! i))
   \<and> py_isspace c
       = (c \<in> {9..13} \<union> {28..32} \<union> {133, 160, 5760} \<union> {8192..8202}
              \<union> {8232, 8233, 8239, 8287, 12288})"
proof -
  have isp: "py_isspace c
       = (c \<in> {9..13} \<union> {28..32} \<union> {133, 160, 5760} \<union> {8192..8202}
              \<union> {8232, 8233, 8239, 8287, 12288})"
    by (auto simp: py_isspace_def)
  have skip: "importar_csv env s
            (Some \<lparr>filename = nome_arquivo, linhas = Some (cabecalho # pre @ row # pos)\<rparr>)
          = importar_csv env s
            (Some \<lparr>filename = nome_arquivo, linhas = Some (cabecalho # pre @ pos)\<rparr>)"
    if "ler_linha env row = None"
    using importar_linhas_ignorada[OF that, of "(s, 0, 0)" pre pos]
    by (simp add: importar_csv_def)
  have len: "length (replace_comma t) = length t" by (simp add: replace_comma_def)
  have nth: "\<forall>i<length t. replace_comma t ! i = (if t ! i = 44 then 46 else t ! i)"
    using replace_comma_nth by blast
  from skip importar_csv_linhas[of nome_arquivo env s cabecalho rows] strip_decomp[of t]
    strip_ends[of t] len nth isp
    ler_linha_Some_iff[of env row nome qtd preco_venda preco_custo validade]
    ler_linha_None_iff[of env row]
  show ?thesis by (intro conjI impI) blast+
qed

lemmas amostra_defs = ler_linha_def strip_def py_isspace_def replace_comma_def env0_def ascii_def

lemma amostra_1:
  "ler_linha env0 [ascii ''Widget'', ascii ''5'', ascii ''10,50'', [], []]
     = Some (ascii ''Widget'', 5, 21 / 2, 0, [])"
  by (simp add: amostra_defs)

lemma amostra_2:
  "ler_linha env0 [ascii ''  Porca '', ascii ''7'', ascii ''2,00'']
     = Some (ascii ''Porca'', 7, 2, 0, [])"
  by (simp add: amostra_defs)

lemma amostra_3:
  "ler_linha env0 [ascii ''Widget'', ascii ''5'', ascii ''10,50'', ascii ''10,50'', ascii '' 12/2027 '']
     = Some (ascii ''Widget'', 5, 21 / 2, 21 / 2, ascii ''12/2027'')"
  by (simp add: amostra_defs)

lemma amostra_4:
  "ler_linha env0 [ascii ''Widget'', ascii ''5''] = None"
  "ler_linha env0 [ascii ''   '', ascii ''5'', ascii ''10,50''] = None"
  "ler_linha env0 [[160, 8195], ascii ''5'', ascii ''10,50''] = None"
  "ler_linha env0 [ascii ''Widget'', ascii ''cinco'', ascii ''10,50''] = None"
  "ler_linha env0 [ascii ''Widget'', ascii ''5'', ascii ''dez''] = None"
  "ler_linha env0 [ascii ''Widget'', ascii ''5'', ascii ''10,50'', ascii ''x''] = None"
  by (simp_all add: amostra_defs)



lemma loja_find_widget:
  "find (\<lambda>p. p_nome p = ascii ''Widget'') (produtos loja) = Some widget"
  by (simp add: loja_def widget_def)

theorem ler_linha_regras_witness:
  "ler_linha env0 [ascii ''Widget'', ascii ''5'', ascii ''10,50'', [], []]
     = Some (ascii ''Widget'', 5, 21 / 2, 0, [])
   \<and> ler_linha env0 [ascii ''  Porca '', ascii ''7'', ascii ''2,00'']
     = Some (ascii ''Porca'', 7, 2, 0, [])
   \<and> ler_linha env0 [ascii ''Widget'', ascii ''5'', ascii ''10,50'', ascii ''10,50'', ascii '' 12/2027 '']
     = Some (ascii ''Widget'', 5, 21 / 2, 21 / 2, ascii ''12/2027'')
   \<and> ler_linha env0 [ascii ''Widget'', ascii ''5''] = None
   \<and> ler_linha env0 [ascii ''   '', ascii ''5'', ascii ''10,50''] = None
   \<and> ler_linha env0 [[160, 8195], ascii ''5'', ascii ''10,50''] = None
   \<and> ler_linha env0 [ascii ''Widget'', ascii ''cinco'', ascii ''10,50''] = None
   \<and> ler_linha env0 [ascii ''Widget'', ascii ''5'', ascii ''dez''] = None
   \<and> strip [160, 9, 87, 32, 105, 133, 12288] = [87, 32, 105]
   \<and> replace_comma (ascii ''1,5,0'') = ascii ''1.5.0''
   \<and> importar_csv env0 loja
        (Some \<lparr>filename = ascii ''estoque.csv'',
               linhas = Some [[ascii ''nome'', ascii ''quantidade'', ascii ''preco_venda''],
                              [ascii ''Widget'', ascii ''5'', ascii ''10,50'', [], []],
                              [ascii ''Widget'', ascii ''cinco'', ascii ''10,50'']]\<rparr>)
      = importar_csv env0 loja
        (Some \<lparr>filename = ascii ''estoque.csv'',
               linhas = Some [[ascii ''nome'', ascii ''quantidade'', ascii ''preco_venda''],
                              [ascii ''Widget'', ascii ''5'', ascii ''10,50'', [], []]]\<rparr>)
   \<and> importar_csv env0 loja
        (Some \<lparr>filename = ascii ''estoque.csv'',
               linhas = Some [[ascii ''nome'', ascii ''quantidade'', ascii ''preco_venda''],
                              [ascii ''Widget'', ascii ''5'', ascii ''10,50'', [], []]]\<rparr>)
      = (Importacao 0 1, loja\<lparr>produtos := [widget\<lparr>p_quantidade := 15\<rparr>, widget2, parafuso]\<rparr>)"
proof -
  note regras = ler_linha_regras[of env0 "[ascii ''Widget'', ascii ''cinco'', ascii ''10,50'']"
      "[]" 0 0 0 "[]" loja "ascii ''estoque.csv''"
      "[ascii ''nome'', ascii ''quantidade'', ascii ''preco_venda'']"
      "[[ascii ''Widget'', ascii ''5'', ascii ''10,50'', [], []]]" "[]"
      "[[ascii ''Widget'', ascii ''5'', ascii ''10,50'', [], []]]" "[160, 9, 87, 32, 105, 133, 12288]"]
  have skip: "importar_csv env0 loja
        (Some \<lparr>filename = ascii ''estoque.csv'',
               linhas = Some [[ascii ''nome'', ascii ''quantidade'', ascii ''preco_venda''],
                              [ascii ''Widget'', ascii ''5'', ascii ''10,50'', [], []],
                              [ascii ''Widget'', ascii ''cinco'', ascii ''10,50'']]\<rparr>)
      = importar_csv env0 loja
        (Some \<lparr>filename = ascii ''estoque.csv'',
               linhas = Some [[ascii ''nome'', ascii ''quantidade'', ascii ''preco_venda''],
                              [ascii ''Widget'', ascii ''5'', ascii ''10,50'', [], []]]\<rparr>)"
    using regras[THEN conjunct2, THEN conjunct2, THEN conjunct1] amostra_4(4) by simp
  have ne: "ascii ''estoque.csv'' \<noteq> []" by (simp add: ascii_def)
  have a: "importar_linha env0 (loja, 0, 0) [ascii ''Widget'', ascii ''5'', ascii ''10,50'', [], []]
       = Inr (loja\<lparr>produtos := [widget\<lparr>p_quantidade := 15\<rparr>, widget2, parafuso]\<rparr>, 0, 1)"
    unfolding importar_linha_lida[OF amostra_1] loja_find_widget
    by (simp add: loja_def widget_def store_int_def env0_def)
  have csv: "importar_csv env0 loja
        (Some \<lparr>filename = ascii ''estoque.csv'',
               linhas = Some [[ascii ''nome'', ascii ''quantidade'', ascii ''preco_venda''],
                              [ascii ''Widget'', ascii ''5'', ascii ''10,50'', [], []]]\<rparr>)
      = (Importacao 0 1, loja\<lparr>produtos := [widget\<lparr>p_quantidade := 15\<rparr>, widget2, parafuso]\<rparr>)"
    unfolding importar_csv_linhas[OF ne] by (simp add: a)
  have st: "strip [160, 9, 87, 32, 105, 133, 12288] = [87, 32, 105]"
    by (simp add: strip_def py_isspace_def)
  have rc: "replace_comma (ascii ''1,5,0'') = ascii ''1.5.0''"
    by (simp add: replace_comma_def ascii_def)
  from amostra_1 amostra_2 amostra_3 amostra_4 st rc skip csv show ?thesis by blast
qed

section \<open>CSV import: update or insert by name\<close>







section \<open>Sale rows are never rewritten\<close>

lemma vendas_importar_linha:
  "importar_linha env st row = Inr st' \<Longrightarrow> vendas (fst st') = vendas (fst st)"
  by (cases st)
     (auto simp: importar_linha_def write_produto_def
           split: option.splits prod.splits if_splits sum.splits)

lemma vendas_importar_linhas:
  "importar_linhas env st rows = Inr st' \<Longrightarrow> vendas (fst st') = vendas (fst st)"
proof (induction rows arbitrary: st)
  case Nil
  then show ?case by simp
next
  case (Cons row rows)
  from Cons.prems obtain st1 where 1: "importar_linha env st row = Inr st1"
    and 2: "importar_linhas env st1 rows = Inr st'"
    by (auto split: sum.splits)
  from Cons.IH[OF 2] vendas_importar_linha[OF 1] show ?case by simp
qed

lemma vendas_importar_csv:
  "vendas (snd (importar_csv env s a)) = vendas s"
proof (cases a)
  case None
  then show ?thesis by (simp add: importar_csv_def)
next
  case (Some arquivo)
  show ?thesis
  proof (cases "linhas arquivo")
    case None
    with Some show ?thesis by (simp add: importar_csv_def)
  next
    case (Some csv_input)
    show ?thesis
    proof (cases "importar_linhas env (s, 0, 0) (drop 1 csv_input)")
      case (Inl e)
      with Some \<open>a = Some arquivo\<close> show ?thesis by (simp add: importar_csv_def)
    next
      case (Inr st')
      obtain s' n m where st': "st' = (s', n, m)" by (cases st')
      from vendas_importar_linhas[OF Inr] st' have "vendas s' = vendas s" by simp
      with Inr st' Some \<open>a = Some arquivo\<close> show ?thesis by (simp add: importar_csv_def)
    qed
  qed
qed

lemma vendas_nova_venda:
  "vendas (snd (nova_venda env agora s pid cf q)) = vendas s
   \<or> (\<exists>v. vendas (snd (nova_venda env agora s pid cf q)) = vendas s @ [v]
          \<and> v_id v \<notin> v_id ` set (vendas s))"
proof (cases "fst (nova_venda env agora s pid cf q) = VendaRegistrada")
  case True
  then obtain s' where ok: "nova_venda env agora s pid cf q = (VendaRegistrada, s')"
    by (cases "nova_venda env agora s pid cf q") simp
  have fresh: "next_id (map v_id (vendas s)) \<notin> v_id ` set (vendas s)"
    using next_id_fresh[of "map v_id (vendas s)"] by simp
  from nova_venda_registrada[OF ok] fresh ok show ?thesis by auto
next
  case False
  have "snd (nova_venda env agora s pid cf q) = s"
    using False
    by (auto simp: nova_venda_def split: option.splits sum.splits if_splits)
  then show ?thesis by simp
qed

lemma vendas_limpar_vendas:
  "vendas (persistido (snd (limpar_vendas f s))) = (if f = SemFalha then [] else vendas s)"
  by (cases f)
     (simp_all add: limpar_vendas_def query_venda_delete_def session_commit_def
        session_rollback_def)

lemma vendas_executar:
  "vendas (executar env s op) = vendas s
   \<or> (op = OpLimparVendas SemFalha \<and> vendas (executar env s op) = [])
   \<or> (\<exists>v. vendas (executar env s op) = vendas s @ [v]
          \<and> v_id v \<notin> v_id ` set (vendas s))"
proof (cases op)
  case (OpNovaVenda agora i cf q)
  then show ?thesis using vendas_nova_venda[of env agora s i cf q] by auto
next
  case (OpImportarCsv a)
  then show ?thesis by (simp add: vendas_importar_csv)
next
  case (OpLimparVendas f)
  then show ?thesis by (simp add: vendas_limpar_vendas)
qed (simp_all add: adicionar_def editar_def deletar_def adicionar_cliente_def
       editar_cliente_def deletar_cliente_def Let_def split: option.splits sum.splits)

lemma vendas_executar_todas:
  "OpLimparVendas SemFalha \<notin> set ops \<Longrightarrow>
     \<exists>novas. vendas (executar_todas env s ops) = vendas s @ novas"
proof (induction ops arbitrary: s)
  case Nil
  then show ?case by simp
next
  case (Cons op ops)
  from Cons.prems have ne: "op \<noteq> OpLimparVendas SemFalha" and rest: "OpLimparVendas SemFalha \<notin> set ops"
    by auto
  from vendas_executar[of env s op] ne
  obtain n1 where n1: "vendas (executar env s op) = vendas s @ n1" by auto
  from Cons.IH[OF rest, of "executar env s op"]
  obtain n2 where "vendas (executar_todas env (executar env s op) ops)
      = vendas (executar env s op) @ n2" by blast
  with n1 show ?case by simp
qed

text \<open>
  Claim C4. No request rewrites a sale row. One request leaves the sale table as it is
  (product and customer edits and deletions, the CSV import, the reports, exports and
  listings, a failed clearing, any request that ends in an exception), empties it (the
  clearing that succeeds), or appends one row with a fresh id (a registered sale). Hence
  after any sequence of requests without a successful clearing the sale rows that
  existed at the start are still there, unchanged, \<open>valor_total\<close> included, whatever
  happened to the prices of their products.
\<close>

theorem valor_total_fixo:
  "(vendas (executar env s op) = vendas s
     \<or> vendas (executar env s op) = []
     \<or> (\<exists>v. vendas (executar env s op) = vendas s @ [v]
            \<and> v_id v \<notin> v_id ` set (vendas s)))
   \<and> (OpLimparVendas SemFalha \<notin> set ops \<longrightarrow>
        (\<exists>novas. vendas (executar_todas env s ops) = vendas s @ novas))"
  using vendas_executar[of env s op] vendas_executar_todas[of ops env s]
  by blast

theorem valor_total_fixo_witness:
  "vendas (executar_todas env0 loja
      [OpEditar 1 (ascii ''Widget'') 10 99 None None, OpNovaVenda 200 1 None 1, OpDeletar 1,
       OpLimparVendas FalhaCommit])
     = [venda1, \<lparr>v_id = 2, v_data = 200, v_quantidade = 1, v_valor_total = 99,
                  v_produto_id = 1, v_cliente_id = None\<rparr>]
   \<and> vendas loja = [venda1] \<and> v_valor_total venda1 = 10 \<and> v_produto_id venda1 = 1
   \<and> map p_preco (produtos (executar env0 loja
        (OpEditar 1 (ascii ''Widget'') 10 99 None None))) = [99, 6, 1]
   \<and> vendas (executar env0 loja (OpLimparVendas SemFalha)) = []"
proof -
  have e: "executar env0 loja (OpEditar 1 (ascii ''Widget'') 10 99 None None)
      = loja\<lparr>produtos := [widget\<lparr>p_preco := 99, p_preco_compra := None\<rparr>, widget2, parafuso]\<rparr>"
    by (simp add: editar_def loja_get_1 write_produto_def store_int_def env0_def)
       (simp add: loja_def widget_def)
  have g: "query_get p_id
      (produtos (loja\<lparr>produtos := [widget\<lparr>p_preco := 99, p_preco_compra := None\<rparr>, widget2, parafuso]\<rparr>)) 1
      = Inr (Some (widget\<lparr>p_preco := 99, p_preco_compra := None\<rparr>))"
    by (simp add: query_get_def store_int_def widget_def)
  have r: "vendas (executar_todas env0 loja
      [OpEditar 1 (ascii ''Widget'') 10 99 None None, OpNovaVenda 200 1 None 1, OpDeletar 1,
       OpLimparVendas FalhaCommit])
     = [venda1, \<lparr>v_id = 2, v_data = 200, v_quantidade = 1, v_valor_total = 99,
                  v_produto_id = 1, v_cliente_id = None\<rparr>]"
    unfolding executar_todas.simps e
    unfolding executar.simps nova_venda_found[OF g]
    by (simp add: deletar_def query_get_def store_int_def insert_venda_def env0_def
          widget_def widget2_def parafuso_def loja_def
          venda1_def next_id_def limpar_vendas_def query_venda_delete_def session_commit_def
          session_rollback_def)
  have c: "vendas (executar env0 loja (OpLimparVendas SemFalha)) = []"
    by (simp add: limpar_vendas_def query_venda_delete_def session_commit_def)
  from valor_total_fixo[of env0 loja "OpLimparVendas SemFalha"
      "[OpEditar 1 (ascii ''Widget'') 10 99 None None, OpNovaVenda 200 1 None 1, OpDeletar 1,
        OpLimparVendas FalhaCommit]"] r c e
  show ?thesis
    by (simp add: loja_def venda1_def widget_def widget2_def parafuso_def)
qed

end
